theory Spec2Isabelle
  imports Complex_Main "HOL-Library.Log_Nat"
begin

section \<open>Inventory management system: data model\<close>

text \<open>
  The development embeds \<^verbatim>\<open>inventory_m-sys/main.py\<close>. Python objects that are
  mutated in place are modelled by explicit state passing: every operation that can raise
  returns a pair of an optional error and the state after the call, so that what an
  exception leaves behind is part of the result.

  Conventions:
  \<^item> Python's unbounded \<^verbatim>\<open>int\<close> is \<^typ>\<open>int\<close>.
  \<^item> A Python \<^verbatim>\<open>float\<close> is a rational number, an infinity or NaN; the result of
    each operation on floats is rounded to the nearest double, ties to even.
  \<^item> The library functions are modelled as CPython 3.11 on Linux (glibc) runs them.
  \<^item> The clock \<^verbatim>\<open>datetime.now()\<close> is an explicit argument \<open>now\<close>.
  \<^item> A \<^verbatim>\<open>dict\<close> is an association list in insertion order.
\<close>

subsection \<open>Errors\<close>

text \<open>
  One constructor for each way an operation raises. The source raises \<^verbatim>\<open>ValueError\<close>
  with a message at the first five sites; \<open>MalformedField\<close> stands for the
  \<^verbatim>\<open>KeyError\<close> of \<^verbatim>\<open>item.pop("type")\<close>, the \<^verbatim>\<open>TypeError\<close> of a
  keyword-argument mismatch in a constructor call and the \<^verbatim>\<open>ValueError\<close> of
  \<^verbatim>\<open>strptime\<close>; \<open>IOFailure\<close> for a file that cannot be opened or decoded.
  \<open>OverflowError\<close> is raised when an \<^verbatim>\<open>int\<close> too large for a \<^verbatim>\<open>float\<close> meets
  one in arithmetic, and \<open>IntTooLong\<close> is the \<^verbatim>\<open>ValueError\<close> of writing an
  \<^verbatim>\<open>int\<close> of more than 4300 decimal digits as text.
\<close>

datatype error =
    DuplicateId
  | NotFound
  | InsufficientStock
  | ExpiredProduct
  | UnknownCategory
  | MalformedField
  | IOFailure
  | OverflowError
  | IntTooLong

subsection \<open>Numbers\<close>

text \<open>
  A \<^verbatim>\<open>float\<close> is an IEEE 754 double: a finite value, an infinity or NaN. The two
  zeros are one value here, as they are for Python's \<^verbatim>\<open>==\<close>. A number of the program
  is an \<^verbatim>\<open>int\<close> or a \<^verbatim>\<open>float\<close>.
\<close>

datatype pyfloat = Finite rat | PosInf | NegInf | NaN

datatype pynum = PInt int | PFloat pyfloat

definition pow2 :: "int \<Rightarrow> rat" where
  "pow2 k = (if 0 \<le> k then 2 ^ nat k else 1 / 2 ^ nat (- k))"

text \<open>For a positive \<open>a\<close>, the exponent \<open>k\<close> with \<open>pow2 k \<le> a < pow2 (k + 1)\<close>.\<close>

definition floor_log2 :: "rat \<Rightarrow> int" where
  "floor_log2 a = (if 1 \<le> a then bitlen \<lfloor>a\<rfloor> - 1 else - bitlen (\<lceil>1 / a\<rceil> - 1))"

text \<open>The nearest integer, a tie going to the even one.\<close>

definition round_half_even :: "rat \<Rightarrow> int" where
  "round_half_even x =
     (let n = \<lfloor>x\<rfloor>; f = x - of_int n
      in if f < 1 / 2 then n else if 1 / 2 < f then n + 1 else if even n then n else n + 1)"

text \<open>
  The double nearest to a rational number. A double is \<open>m * pow2 e\<close> with
  \<open>m < 2 ^ 53\<close> and \<open>- 1074 \<le> e \<le> 971\<close>; the exponent \<open>e\<close> is the one that gives \<open>m\<close>
  53 bits, or \<open>- 1074\<close> for a subnormal result. A result of \<open>pow2 1024\<close> or more, which is
  \<open>2 ^ 53 * pow2 971\<close>, is an infinity.
\<close>

definition round_double :: "rat \<Rightarrow> pyfloat" where
  "round_double x =
     (if x = 0 then Finite 0
      else
        let a = \<bar>x\<bar>;
            e = max (floor_log2 a - 52) (- 1074);
            m = round_half_even (a / pow2 e)
        in if 971 < e \<or> (e = 971 \<and> 2 ^ 53 \<le> m) then (if 0 < x then PosInf else NegInf)
           else Finite (sgn x * of_int m * pow2 e))"










subsection \<open>Naive datetimes\<close>

record datetime =
  year :: nat
  month :: nat
  day :: nat
  hour :: nat
  minute :: nat
  second :: nat
  microsecond :: nat

text \<open>Python compares naive datetimes field by field, most significant first.\<close>

definition dt_key :: "datetime \<Rightarrow> nat list" where
  "dt_key t = [year t, month t, day t, hour t, minute t, second t, microsecond t]"

fun lex_less :: "nat list \<Rightarrow> nat list \<Rightarrow> bool" where
  "lex_less (x # xs) (y # ys) = (x < y \<or> (x = y \<and> lex_less xs ys))"
| "lex_less _ _ = False"

definition dt_less :: "datetime \<Rightarrow> datetime \<Rightarrow> bool" where
  "dt_less a b = lex_less (dt_key a) (dt_key b)"

text \<open>The calendar date of a datetime, and the comparison of calendar dates.\<close>

definition date_key :: "datetime \<Rightarrow> nat list" where
  "date_key t = [year t, month t, day t]"

definition date_less :: "datetime \<Rightarrow> datetime \<Rightarrow> bool" where
  "date_less a b = lex_less (date_key a) (date_key b)"

definition midnight :: "datetime \<Rightarrow> bool" where
  "midnight t = (hour t = 0 \<and> minute t = 0 \<and> second t = 0 \<and> microsecond t = 0)"

definition is_leap :: "nat \<Rightarrow> bool" where
  "is_leap y = (y mod 4 = 0 \<and> (y mod 100 \<noteq> 0 \<or> y mod 400 = 0))"

definition days_in_month :: "nat \<Rightarrow> nat \<Rightarrow> nat" where
  "days_in_month y m =
     (if m = 2 then (if is_leap y then 29 else 28)
      else if m = 4 \<or> m = 6 \<or> m = 9 \<or> m = 11 then 30 else 31)"

text \<open>
  The datetimes that \<^verbatim>\<open>datetime.strptime(s, "%Y-%m-%d")\<close> can return: a calendar
  date between 0001-01-01 and 9999-12-31, at midnight.
\<close>

definition valid_date :: "datetime \<Rightarrow> bool" where
  "valid_date t =
     (1 \<le> year t \<and> year t \<le> 9999 \<and> 1 \<le> month t \<and> month t \<le> 12 \<and>
      1 \<le> day t \<and> day t \<le> days_in_month (year t) (month t) \<and> midnight t)"

subsubsection \<open>\<^verbatim>\<open>strptime\<close> and \<^verbatim>\<open>strftime\<close> for the format \<^verbatim>\<open>%Y-%m-%d\<close>\<close>

text \<open>
  The value of a decimal digit, from its character code, and the character of the last
  decimal digit of a number.
\<close>

definition digit_of :: "char \<Rightarrow> nat option" where
  "digit_of c =
     (let code = (of_char c :: nat); zero = of_char (CHR ''0'')
      in if zero \<le> code \<and> code \<le> zero + 9 then Some (code - zero) else None)"

definition digit_char :: "nat \<Rightarrow> char" where
  "digit_char n = char_of (of_char (CHR ''0'') + n mod 10)"

text \<open>\<^verbatim>\<open>%Y\<close> is the pattern \<^verbatim>\<open>\d\d\d\d\<close>: exactly four digits.\<close>

definition parse_year :: "string \<Rightarrow> nat option" where
  "parse_year s =
     (case map digit_of s of
        [Some a, Some b, Some c, Some d] \<Rightarrow> Some (1000 * a + 100 * b + 10 * c + d)
      | _ \<Rightarrow> None)"

text \<open>\<^verbatim>\<open>%m\<close> is the pattern \<^verbatim>\<open>1[0-2]|0[1-9]|[1-9]\<close>.\<close>

definition parse_month :: "string \<Rightarrow> nat option" where
  "parse_month s =
     (case map digit_of s of
        [Some a] \<Rightarrow> if 1 \<le> a then Some a else None
      | [Some a, Some b] \<Rightarrow>
          if 1 \<le> 10 * a + b \<and> 10 * a + b \<le> 12 then Some (10 * a + b) else None
      | _ \<Rightarrow> None)"

text \<open>\<^verbatim>\<open>%d\<close> is the pattern \<^verbatim>\<open>3[01]|[12]\d|0[1-9]|[1-9]| [1-9]\<close>.\<close>

definition parse_day :: "string \<Rightarrow> nat option" where
  "parse_day s =
     (case map digit_of (if take 1 s = '' '' \<and> length s = 2 then drop 1 s else s) of
        [Some a] \<Rightarrow> if 1 \<le> a then Some a else None
      | [Some a, Some b] \<Rightarrow>
          if 1 \<le> 10 * a + b \<and> 10 * a + b \<le> 31 then Some (10 * a + b) else None
      | _ \<Rightarrow> None)"

text \<open>
  \<^verbatim>\<open>datetime.strptime(s, "%Y-%m-%d")\<close>; \<open>None\<close> is the \<^verbatim>\<open>ValueError\<close>. The
  year is the first four characters, the month the text up to the next hyphen, the day
  all that remains (text left over after the match is an error); the fields then have to
  form a calendar date. Strings are over 8-bit characters, so digits other than
  \<^verbatim>\<open>0\<close> to \<^verbatim>\<open>9\<close> do not occur.
\<close>

definition strptime :: "string \<Rightarrow> datetime option" where
  "strptime s =
     (if length s < 5 \<or> s ! 4 \<noteq> CHR ''-'' then None
      else
        let rest = drop 5 s;
            mtok = takeWhile (\<lambda>c. c \<noteq> CHR ''-'') rest;
            after = dropWhile (\<lambda>c. c \<noteq> CHR ''-'') rest
        in if after = [] then None
           else
             (case (parse_year (take 4 s), parse_month mtok, parse_day (tl after)) of
                (Some y, Some m, Some d) \<Rightarrow>
                  if 1 \<le> y \<and> d \<le> days_in_month y m
                  then Some \<lparr>year = y, month = m, day = d,
                              hour = 0, minute = 0, second = 0, microsecond = 0\<rparr>
                  else None
              | _ \<Rightarrow> None))"




subsection \<open>Products\<close>

text \<open>
  The base class \<^verbatim>\<open>Product\<close> holds the four common fields; each subclass adds its
  own, kept here in \<open>details\<close>, whose constructor is the class of the object.
  \<open>clothing_size\<close> is the attribute \<^verbatim>\<open>size\<close> of \<^verbatim>\<open>Clothing\<close>.
\<close>

datatype details =
    Electronics (brand: string) (warranty_years: int)
  | Grocery (expiry_date: datetime)
  | Clothing (clothing_size: string) (material: string)

record product =
  product_id :: string
  name :: string
  price :: pynum
  quantity_in_stock :: int
  details :: details



text \<open>\<^verbatim>\<open>Grocery.is_expired\<close>: \<^verbatim>\<open>datetime.now() > self.expiry_date\<close>.\<close>

definition is_expired :: "datetime \<Rightarrow> datetime \<Rightarrow> bool" where
  "is_expired now expiry = dt_less expiry now"

text \<open>\<^verbatim>\<open>isinstance(p, Grocery) and p.is_expired()\<close>\<close>

definition expired_grocery :: "datetime \<Rightarrow> product \<Rightarrow> bool" where
  "expired_grocery now p =
     (case details p of Grocery e \<Rightarrow> is_expired now e | _ \<Rightarrow> False)"

text \<open>The three \<^verbatim>\<open>restock\<close> methods have the same body.\<close>

definition restock :: "int \<Rightarrow> product \<Rightarrow> error option \<times> product" where
  "restock amount p = (None, p\<lparr>quantity_in_stock := quantity_in_stock p + amount\<rparr>)"

text \<open>\<^verbatim>\<open>Electronics.sell\<close> and \<^verbatim>\<open>Clothing.sell\<close>\<close>

definition sell_plain :: "int \<Rightarrow> product \<Rightarrow> error option \<times> product" where
  "sell_plain quantity p =
     (if quantity > quantity_in_stock p then (Some InsufficientStock, p)
      else (None, p\<lparr>quantity_in_stock := quantity_in_stock p - quantity\<rparr>))"

text \<open>\<^verbatim>\<open>Grocery.sell\<close>\<close>

definition sell_grocery :: "datetime \<Rightarrow> datetime \<Rightarrow> int \<Rightarrow> product \<Rightarrow> error option \<times> product" where
  "sell_grocery now expiry quantity p =
     (if is_expired now expiry then (Some ExpiredProduct, p)
      else if quantity > quantity_in_stock p then (Some InsufficientStock, p)
      else (None, p\<lparr>quantity_in_stock := quantity_in_stock p - quantity\<rparr>))"

text \<open>Method dispatch of \<^verbatim>\<open>p.sell(quantity)\<close> on the class of \<open>p\<close>.\<close>

definition sell :: "datetime \<Rightarrow> int \<Rightarrow> product \<Rightarrow> error option \<times> product" where
  "sell now quantity p =
     (case details p of
        Electronics _ _ \<Rightarrow> sell_plain quantity p
      | Grocery e \<Rightarrow> sell_grocery now e quantity p
      | Clothing _ _ \<Rightarrow> sell_plain quantity p)"

subsection \<open>Dictionaries in insertion order\<close>

type_synonym ('k, 'v) dict = "('k \<times> 'v) list"

text \<open>\<^verbatim>\<open>k in d\<close>\<close>

definition dict_contains :: "('k, 'v) dict \<Rightarrow> 'k \<Rightarrow> bool" where
  "dict_contains d k = (k \<in> set (map fst d))"

text \<open>\<^verbatim>\<open>d[k]\<close> for a key that is present\<close>

definition dict_get :: "('k, 'v) dict \<Rightarrow> 'k \<Rightarrow> 'v option" where
  "dict_get d k = map_of d k"

text \<open>\<^verbatim>\<open>d[k] = v\<close>: an existing key keeps its position, a new key goes last.\<close>

fun dict_set :: "('k, 'v) dict \<Rightarrow> 'k \<Rightarrow> 'v \<Rightarrow> ('k, 'v) dict" where
  "dict_set [] k v = [(k, v)]"
| "dict_set ((k', v') # d) k v =
     (if k' = k then (k, v) # d else (k', v') # dict_set d k v)"

text \<open>\<^verbatim>\<open>del d[k]\<close> for a key that is present\<close>

definition dict_del :: "('k, 'v) dict \<Rightarrow> 'k \<Rightarrow> ('k, 'v) dict" where
  "dict_del d k = filter (\<lambda>kv. fst kv \<noteq> k) d"

subsection \<open>The inventory\<close>

record inventory =
  products :: "(string, product) dict"

text \<open>\<^verbatim>\<open>Inventory.__init__\<close>\<close>

definition new_inventory :: inventory where
  "new_inventory = \<lparr>products = []\<rparr>"

text \<open>\<^verbatim>\<open>Inventory.add_product\<close>\<close>

definition add_product :: "product \<Rightarrow> inventory \<Rightarrow> error option \<times> inventory" where
  "add_product p iv =
     (if dict_contains (products iv) (product_id p) then (Some DuplicateId, iv)
      else (None, iv\<lparr>products := dict_set (products iv) (product_id p) p\<rparr>))"

text \<open>\<^verbatim>\<open>Inventory.remove_product\<close>\<close>

definition remove_product :: "string \<Rightarrow> inventory \<Rightarrow> error option \<times> inventory" where
  "remove_product pid iv =
     (if dict_contains (products iv) pid
      then (None, iv\<lparr>products := dict_del (products iv) pid\<rparr>)
      else (Some NotFound, iv))"

text \<open>
  \<^verbatim>\<open>Inventory.sell_product\<close>. The object stored under the key is mutated in place; in
  the model the entry is overwritten with the object after the call.
\<close>

definition sell_product :: "datetime \<Rightarrow> string \<Rightarrow> int \<Rightarrow> inventory \<Rightarrow> error option \<times> inventory" where
  "sell_product now pid quantity iv =
     (case dict_get (products iv) pid of
        None \<Rightarrow> (Some NotFound, iv)
      | Some p \<Rightarrow>
          (case sell now quantity p of
             (e, p') \<Rightarrow> (e, iv\<lparr>products := dict_set (products iv) pid p'\<rparr>)))"

text \<open>\<^verbatim>\<open>Inventory.restock_product\<close>\<close>

definition restock_product :: "string \<Rightarrow> int \<Rightarrow> inventory \<Rightarrow> error option \<times> inventory" where
  "restock_product pid quantity iv =
     (case dict_get (products iv) pid of
        None \<Rightarrow> (Some NotFound, iv)
      | Some p \<Rightarrow>
          (case restock quantity p of
             (e, p') \<Rightarrow> (e, iv\<lparr>products := dict_set (products iv) pid p'\<rparr>)))"



text \<open>
  \<^verbatim>\<open>Inventory.remove_expired_products\<close>: the keys to remove are collected first, then
  deleted one by one.
\<close>

definition to_remove :: "datetime \<Rightarrow> inventory \<Rightarrow> string list" where
  "to_remove now iv = map fst (filter (\<lambda>kv. expired_grocery now (snd kv)) (products iv))"

definition remove_expired_products :: "datetime \<Rightarrow> inventory \<Rightarrow> inventory" where
  "remove_expired_products now iv =
     iv\<lparr>products := foldl dict_del (products iv) (to_remove now iv)\<rparr>"

subsection \<open>Persistence\<close>

text \<open>
  One object of the persisted document, as \<^verbatim>\<open>json.load\<close> returns it: a
  \<^verbatim>\<open>dict\<close> from keys to values. Each key of the file format has a field that holds its
  value when the key is present; \<open>other_keys\<close> lists whatever other keys the object
  has. The values carry the type the format gives the key, so the model covers the
  documents whose known keys are of the right JSON type.
\<close>

record item =
  k_type :: "string option"
  k_product_id :: "string option"
  k_name :: "string option"
  k_price :: "pynum option"
  k_quantity_in_stock :: "int option"
  k_brand :: "string option"
  k_warranty_years :: "int option"
  k_expiry_date :: "string option"
  k_size :: "string option"
  k_material :: "string option"
  other_keys :: "string list"

definition empty_item :: item where
  "empty_item = \<lparr>k_type = None, k_product_id = None, k_name = None, k_price = None,
     k_quantity_in_stock = None, k_brand = None, k_warranty_years = None,
     k_expiry_date = None, k_size = None, k_material = None, other_keys = []\<rparr>"



text \<open>
  The four keyword arguments that every constructor takes are present
  (a missing one is a \<^verbatim>\<open>TypeError\<close>).
\<close>

definition has_base :: "item \<Rightarrow> bool" where
  "has_base it = (k_product_id it \<noteq> None \<and> k_name it \<noteq> None \<and> k_price it \<noteq> None \<and>
     k_quantity_in_stock it \<noteq> None)"

definition base_product :: "item \<Rightarrow> details \<Rightarrow> product" where
  "base_product it d = \<lparr>product_id = the (k_product_id it), name = the (k_name it),
     price = the (k_price it), quantity_in_stock = the (k_quantity_in_stock it),
     details = d\<rparr>"

text \<open>
  \<^verbatim>\<open>Electronics(**item)\<close>, \<^verbatim>\<open>Grocery(**item)\<close>, \<^verbatim>\<open>Clothing(**item)\<close>, for an
  item whose key \<^verbatim>\<open>type\<close> has been popped: the keys have to be exactly the parameters
  of the constructor, a missing or an unexpected keyword being a \<^verbatim>\<open>TypeError\<close>.
  \<^verbatim>\<open>Grocery.__init__\<close> parses the date and raises if it cannot.
\<close>

definition new_Electronics :: "item \<Rightarrow> error + product" where
  "new_Electronics it =
     (if has_base it \<and> k_brand it \<noteq> None \<and> k_warranty_years it \<noteq> None \<and>
         k_expiry_date it = None \<and> k_size it = None \<and> k_material it = None \<and>
         other_keys it = []
      then Inr (base_product it (Electronics (the (k_brand it)) (the (k_warranty_years it))))
      else Inl MalformedField)"

definition new_Grocery :: "item \<Rightarrow> error + product" where
  "new_Grocery it =
     (if has_base it \<and> k_expiry_date it \<noteq> None \<and>
         k_brand it = None \<and> k_warranty_years it = None \<and> k_size it = None \<and>
         k_material it = None \<and> other_keys it = []
      then (case strptime (the (k_expiry_date it)) of
              None \<Rightarrow> Inl MalformedField
            | Some e \<Rightarrow> Inr (base_product it (Grocery e)))
      else Inl MalformedField)"

definition new_Clothing :: "item \<Rightarrow> error + product" where
  "new_Clothing it =
     (if has_base it \<and> k_size it \<noteq> None \<and> k_material it \<noteq> None \<and>
         k_brand it = None \<and> k_warranty_years it = None \<and> k_expiry_date it = None \<and>
         other_keys it = []
      then Inr (base_product it (Clothing (the (k_size it)) (the (k_material it))))
      else Inl MalformedField)"

text \<open>
  The body of the loop of \<^verbatim>\<open>load_from_file\<close> up to the construction of the product:
  \<^verbatim>\<open>item.pop("type")\<close> raises \<^verbatim>\<open>KeyError\<close> when the key is missing; the tag then
  selects the constructor.
\<close>

definition decode :: "item \<Rightarrow> error + product" where
  "decode it =
     (case k_type it of
        None \<Rightarrow> Inl MalformedField
      | Some product_type \<Rightarrow>
          if product_type = ''Electronics'' then new_Electronics it
          else if product_type = ''Grocery'' then new_Grocery it
          else if product_type = ''Clothing'' then new_Clothing it
          else Inl UnknownCategory)"

text \<open>
  The loop of \<^verbatim>\<open>load_from_file\<close> over the items, on the dictionary built so far. An
  item that raises ends the loop and leaves the dictionary as it is at that moment.
\<close>

fun load_items :: "item list \<Rightarrow> (string, product) dict \<Rightarrow> error option \<times> (string, product) dict" where
  "load_items [] d = (None, d)"
| "load_items (it # data) d =
     (case decode it of
        Inl e \<Rightarrow> (Some e, d)
      | Inr p \<Rightarrow> load_items data (dict_set d (product_id p) p))"

text \<open>
  What a file holds: text that \<^verbatim>\<open>json.load\<close> rejects, or text that it decodes to a
  list of objects, given here by that list. The file system maps a file name to the
  content of the file, if there is one.
\<close>

datatype file_content = NotJson | JsonArray "item list"

type_synonym file_system = "string \<Rightarrow> file_content option"



text \<open>
  \<^verbatim>\<open>Inventory.load_from_file\<close>: the file is read and decoded first; then the
  dictionary is cleared, and the loop fills it.
\<close>

definition load_from_file :: "string \<Rightarrow> file_system \<Rightarrow> inventory \<Rightarrow> error option \<times> inventory" where
  "load_from_file filename fs iv =
     (case fs filename of
        None \<Rightarrow> (Some IOFailure, iv)
      | Some NotJson \<Rightarrow> (Some IOFailure, iv)
      | Some (JsonArray data) \<Rightarrow>
          (case load_items data [] of
             (e, d) \<Rightarrow> (e, iv\<lparr>products := d\<rparr>)))"

subsection \<open>Invariants\<close>

text \<open>Every record has a stock that is not negative.\<close>

definition stock_ok :: "inventory \<Rightarrow> bool" where
  "stock_ok iv = list_all (\<lambda>kv. 0 \<le> quantity_in_stock (snd kv)) (products iv)"

text \<open>
  What the constructors and \<^verbatim>\<open>add_product\<close> establish: the keys are distinct (it is
  a dictionary), every product is stored under its own id, and the expiry date of a
  grocery is one that \<^verbatim>\<open>strptime\<close> returns.
\<close>

definition valid_product :: "product \<Rightarrow> bool" where
  "valid_product p = (case details p of Grocery e \<Rightarrow> valid_date e | _ \<Rightarrow> True)"

definition wf_inventory :: "inventory \<Rightarrow> bool" where
  "wf_inventory iv =
     (distinct (map fst (products iv)) \<and>
      list_all (\<lambda>kv. product_id (snd kv) = fst kv \<and> valid_product (snd kv)) (products iv))"

text \<open>
  The expiry test in terms of calendar dates, for an expiry time at midnight: the expiry
  date is before the current date, or it is the current date and the clock is past
  midnight.
\<close>

definition expired_by_date :: "datetime \<Rightarrow> datetime \<Rightarrow> bool" where
  "expired_by_date now expiry =
     (date_less expiry now \<or> (date_key expiry = date_key now \<and> \<not> midnight now))"

definition swept :: "datetime \<Rightarrow> product \<Rightarrow> bool" where
  "swept now p = (case details p of Grocery e \<Rightarrow> expired_by_date now e | _ \<Rightarrow> False)"

text \<open>The stock that an item of a document gives, if any, is not negative.\<close>

definition item_stock_ok :: "item \<Rightarrow> bool" where
  "item_stock_ok it = (case k_quantity_in_stock it of None \<Rightarrow> True | Some q \<Rightarrow> 0 \<le> q)"

definition file_stock_ok :: "file_system \<Rightarrow> string \<Rightarrow> bool" where
  "file_stock_ok fs filename =
     (case fs filename of Some (JsonArray data) \<Rightarrow> list_all item_stock_ok data | _ \<Rightarrow> True)"

text \<open>The inventory that \<^verbatim>\<open>load_from_file\<close> builds from products decoded in this order.\<close>

definition dict_of_products :: "product list \<Rightarrow> (string, product) dict" where
  "dict_of_products ps = foldl (\<lambda>d p. dict_set d (product_id p) p) [] ps"










subsection \<open>Fixtures\<close>

text \<open>
  The objects of \<^verbatim>\<open>test_case.py\<close>, at a fixed clock: the milk is fresh for five more
  days, the old milk expired the day before, and a yoghurt expires on the day itself.
\<close>

definition at_midnight :: "nat \<Rightarrow> nat \<Rightarrow> nat \<Rightarrow> datetime" where
  "at_midnight y m d = \<lparr>year = y, month = m, day = d,
     hour = 0, minute = 0, second = 0, microsecond = 0\<rparr>"

definition clock :: datetime where
  "clock = \<lparr>year = 2024, month = 6, day = 15,
     hour = 12, minute = 30, second = 0, microsecond = 0\<rparr>"

definition elec :: product where
  "elec = \<lparr>product_id = ''E001'', name = ''Phone'', price = PFloat (Finite 500),
     quantity_in_stock = 10,
     details = Electronics ''Samsung'' 2\<rparr>"

definition groc :: product where
  "groc = \<lparr>product_id = ''G001'', name = ''Milk'', price = PFloat (Finite (5 / 2)),
     quantity_in_stock = 20,
     details = Grocery (at_midnight 2024 6 20)\<rparr>"

definition cloth :: product where
  "cloth = \<lparr>product_id = ''C001'', name = ''Shirt'', price = PFloat (Finite 25),
     quantity_in_stock = 15,
     details = Clothing ''M'' ''Cotton''\<rparr>"

definition expired :: product where
  "expired = \<lparr>product_id = ''G002'', name = ''Old Milk'', price = PFloat (Finite 2),
     quantity_in_stock = 5,
     details = Grocery (at_midnight 2024 6 14)\<rparr>"

definition yoghurt :: product where
  "yoghurt = \<lparr>product_id = ''G003'', name = ''Yoghurt'', price = PFloat (Finite 1),
     quantity_in_stock = 8,
     details = Grocery (at_midnight 2024 6 15)\<rparr>"

definition shop :: inventory where
  "shop = \<lparr>products = [(''E001'', elec), (''G001'', groc), (''C001'', cloth), (''G002'', expired)]\<rparr>"

text \<open>
  Documents: the shirt followed by an object with an unknown tag, and a phone with a
  negative stock.
\<close>

definition shirt_item :: item where
  "shirt_item = empty_item\<lparr>k_type := Some ''Clothing'', k_product_id := Some ''C001'',
     k_name := Some ''Shirt'', k_price := Some (PFloat (Finite 25)),
     k_quantity_in_stock := Some 15,
     k_size := Some ''M'', k_material := Some ''Cotton''\<rparr>"

definition gadget_item :: item where
  "gadget_item = empty_item\<lparr>k_type := Some ''Gadget'', k_product_id := Some ''X001'',
     k_name := Some ''Widget'', k_price := Some (PFloat (Finite 1)),
     k_quantity_in_stock := Some 1\<rparr>"

definition owed_item :: item where
  "owed_item = empty_item\<lparr>k_type := Some ''Electronics'', k_product_id := Some ''E009'',
     k_name := Some ''Radio'', k_price := Some (PFloat (Finite 30)),
     k_quantity_in_stock := Some (- 5),
     k_brand := Some ''Acme'', k_warranty_years := Some 1\<rparr>"

definition owed :: product where
  "owed = \<lparr>product_id = ''E009'', name = ''Radio'', price = PFloat (Finite 30),
     quantity_in_stock = - 5,
     details = Electronics ''Acme'' 1\<rparr>"





text \<open>
  Valuation: sweets at 0.1, the double nearest to one tenth, with a stock of 3; and a
  stall whose prices are \<^verbatim>\<open>int\<close>s.
\<close>

definition tenth :: rat where
  "tenth = 3602879701896397 / 36028797018963968"





definition disk :: file_system where
  "disk = [''data.json'' \<mapsto> JsonArray [shirt_item, gadget_item],
           ''owed.json'' \<mapsto> JsonArray [owed_item],
           ''notes.txt'' \<mapsto> NotJson]"

section \<open>Properties\<close>

subsection \<open>Dictionaries\<close>

lemma dict_contains_get: "dict_contains d k \<longleftrightarrow> dict_get d k \<noteq> None"
  by (simp add: dict_contains_def dict_get_def map_of_eq_None_iff)

lemma dict_get_set: "dict_get (dict_set d k v) k' = (if k' = k then Some v else dict_get d k')"
  by (induction d) (auto simp: dict_get_def)

lemma dict_set_same: "dict_get d k = Some v \<Longrightarrow> dict_set d k v = d"
  by (induction d) (auto simp: dict_get_def split: if_splits)

lemma dict_set_new: "\<not> dict_contains d k \<Longrightarrow> dict_set d k v = d @ [(k, v)]"
  by (induction d) (auto simp: dict_contains_def)

lemma keys_dict_set:
  "map fst (dict_set d k v) = (if dict_contains d k then map fst d else map fst d @ [k])"
  by (induction d) (force simp: dict_contains_def)+

lemma distinct_dict_set: "distinct (map fst d) \<Longrightarrow> distinct (map fst (dict_set d k v))"
  by (simp add: keys_dict_set dict_contains_def)

lemma set_dict_set: "set (dict_set d k v) \<subseteq> insert (k, v) (set d)"
  by (induction d) (auto split: if_splits)

lemma list_all_dict_set: "list_all P d \<Longrightarrow> P (k, v) \<Longrightarrow> list_all P (dict_set d k v)"
  using set_dict_set [of d k v] by (auto simp: list_all_iff)

lemma dict_get_del: "dict_get (dict_del d k) k' = (if k' = k then None else dict_get d k')"
  by (induction d) (auto simp: dict_get_def dict_del_def)

lemma foldl_dict_del: "foldl dict_del d ks = filter (\<lambda>kv. fst kv \<notin> set ks) d"
proof (induction ks arbitrary: d)
  case Nil
  show ?case by simp
next
  case (Cons k ks)
  have "foldl dict_del (dict_del d k) ks = filter (\<lambda>kv. fst kv \<notin> set ks) (dict_del d k)"
    by (rule Cons.IH)
  also have "\<dots> = filter (\<lambda>kv. fst kv \<notin> set (k # ks)) d"
    by (auto simp: dict_del_def intro: filter_cong)
  finally show ?case by simp
qed

lemma filter_keys_of_filter:
  assumes "distinct (map fst d)"
  shows "filter (\<lambda>kv. fst kv \<notin> set (map fst (filter P d))) d = filter (\<lambda>kv. \<not> P kv) d"
proof (rule filter_cong [OF refl])
  fix kv assume kv: "kv \<in> set d"
  have "fst kv \<in> set (map fst (filter P d)) \<longleftrightarrow> P kv"
  proof
    assume "fst kv \<in> set (map fst (filter P d))"
    then obtain x where x: "x \<in> set d" "P x" "fst x = fst kv" by auto
    from assms x(1) kv x(3) have "x = kv"
      by (metis eq_key_imp_eq_value prod.collapse)
    with x(2) show "P kv" by simp
  next
    assume "P kv"
    with kv show "fst kv \<in> set (map fst (filter P d))" by force
  qed
  then show "(fst kv \<notin> set (map fst (filter P d))) = (\<not> P kv)" by simp
qed

lemma products_remove_expired:
  "distinct (map fst (products iv)) \<Longrightarrow>
   products (remove_expired_products now iv) =
     filter (\<lambda>kv. \<not> expired_grocery now (snd kv)) (products iv)"
  using filter_keys_of_filter [of "products iv" "\<lambda>kv. expired_grocery now (snd kv)"]
  by (simp only: remove_expired_products_def to_remove_def foldl_dict_del) simp

lemma dict_get_filter:
  "distinct (map fst d) \<Longrightarrow>
   dict_get (filter P d) k = (case dict_get d k of None \<Rightarrow> None | Some v \<Rightarrow> if P (k, v) then Some v else None)"
proof (induction d)
  case Nil
  show ?case by (simp add: dict_get_def)
next
  case (Cons kv d)
  obtain k' v' where kv: "kv = (k', v')" by (cases kv)
  from Cons.prems have nin: "k' \<notin> fst ` set d" and dist: "distinct (map fst d)"
    by (simp_all add: kv)
  have IH: "dict_get (filter P d) k =
      (case dict_get d k of None \<Rightarrow> None | Some v \<Rightarrow> if P (k, v) then Some v else None)"
    using Cons.IH dist by simp
  show ?case
  proof (cases "k' = k")
    case True
    with nin have "dict_get d k = None"
      by (simp add: dict_get_def map_of_eq_None_iff)
    with IH True show ?thesis by (simp add: kv dict_get_def)
  next
    case False
    with IH show ?thesis by (simp add: kv dict_get_def)
  qed
qed

subsection \<open>Selling and restocking a record\<close>

lemmas fixture_defs =
  shop_def elec_def groc_def cloth_def expired_def yoghurt_def clock_def at_midnight_def

lemmas document_defs =
  disk_def shirt_item_def gadget_item_def owed_item_def owed_def empty_item_def

lemma sell_not_expired:
  "\<not> expired_grocery now p \<Longrightarrow> sell now q p = sell_plain q p"
  by (cases "details p") (simp_all add: sell_def sell_grocery_def sell_plain_def expired_grocery_def)

lemma sell_expired:
  "expired_grocery now p \<Longrightarrow> sell now q p = (Some ExpiredProduct, p)"
  by (cases "details p") (simp_all add: sell_def sell_grocery_def expired_grocery_def)

text \<open>
  C3. Selling from an expired grocery fails with \<open>ExpiredProduct\<close> for every quantity
  (every positive one in particular) and whatever the stock is, since the expiry check
  comes first; the record, and with it the stock, is left as it was. This holds for the
  method of the record and for \<^verbatim>\<open>Inventory.sell_product\<close>.
\<close>

theorem expired_grocery_sell_fails:
  assumes "expired_grocery now p"
  shows "sell now q p = (Some ExpiredProduct, p) \<and>
         (dict_get (products iv) pid = Some p \<longrightarrow>
            sell_product now pid q iv = (Some ExpiredProduct, iv))"
  using assms by (simp add: sell_expired sell_product_def dict_set_same)

theorem expired_grocery_sell_fails_witness:
  "expired_grocery clock expired \<and> dict_get (products shop) ''G002'' = Some expired \<and>
   sell clock 1 expired = (Some ExpiredProduct, expired) \<and>
   sell_product clock ''G002'' 1 shop = (Some ExpiredProduct, shop) \<and>
   sell_product clock ''G002'' 100 shop = (Some ExpiredProduct, shop)"
proof -
  have e: "expired_grocery clock expired"
    by (simp add: expired_grocery_def is_expired_def dt_less_def dt_key_def fixture_defs)
  have g: "dict_get (products shop) ''G002'' = Some expired"
    by (simp add: dict_get_def shop_def)
  show ?thesis
    using e g expired_grocery_sell_fails [OF e, of 1 shop "''G002''"]
      expired_grocery_sell_fails [OF e, of 100 shop "''G002''"]
    by simp
qed

subsection \<open>Operations of the inventory on one record\<close>

text \<open>
  C7. \<^verbatim>\<open>add_product\<close> fails with \<open>DuplicateId\<close> when the id of the record is
  already a key, and leaves the inventory as it was; otherwise it succeeds and stores the
  record under its id, after the records already there, all of which stay as they were.
\<close>

theorem add_product_duplicate_or_insert:
  "(dict_contains (products iv) (product_id p) \<longrightarrow>
      add_product p iv = (Some DuplicateId, iv)) \<and>
   (\<not> dict_contains (products iv) (product_id p) \<longrightarrow>
      add_product p iv = (None, iv\<lparr>products := products iv @ [(product_id p, p)]\<rparr>) \<and>
      dict_get (products (snd (add_product p iv))) (product_id p) = Some p \<and>
      (\<forall>k. k \<noteq> product_id p \<longrightarrow>
         dict_get (products (snd (add_product p iv))) k = dict_get (products iv) k))"
  by (simp add: add_product_def dict_set_new [symmetric] dict_get_set)

theorem add_product_duplicate_or_insert_witness:
  "dict_contains (products shop) (product_id elec) \<and>
   add_product elec shop = (Some DuplicateId, shop) \<and>
   \<not> dict_contains (products shop) (product_id yoghurt) \<and>
   add_product yoghurt shop =
     (None, shop\<lparr>products := products shop @ [(''G003'', yoghurt)]\<rparr>) \<and>
   dict_get (products (snd (add_product yoghurt shop))) ''G003'' = Some yoghurt \<and>
   dict_get (products (snd (add_product yoghurt shop))) ''E001'' = Some elec"
proof -
  have a: "dict_contains (products shop) (product_id elec)"
    by (simp add: dict_contains_def shop_def elec_def)
  have b: "\<not> dict_contains (products shop) (product_id yoghurt)"
    by (simp add: dict_contains_def shop_def yoghurt_def)
  have c: "product_id yoghurt = ''G003''" "''E001'' \<noteq> product_id yoghurt"
    by (simp_all add: yoghurt_def)
  have d: "dict_get (products shop) ''E001'' = Some elec"
    by (simp add: shop_def dict_get_def)
  from a add_product_duplicate_or_insert [of shop elec]
  have r1: "add_product elec shop = (Some DuplicateId, shop)"
    by blast
  from b add_product_duplicate_or_insert [of shop yoghurt]
  have r2: "add_product yoghurt shop =
      (None, shop\<lparr>products := products shop @ [(product_id yoghurt, yoghurt)]\<rparr>)"
    and r3: "dict_get (products (snd (add_product yoghurt shop))) (product_id yoghurt) = Some yoghurt"
    and r4: "\<forall>k. k \<noteq> product_id yoghurt \<longrightarrow>
      dict_get (products (snd (add_product yoghurt shop))) k = dict_get (products shop) k"
    by blast+
  from r4 c(2) d
  have r5: "dict_get (products (snd (add_product yoghurt shop))) ''E001'' = Some elec"
    by simp
  from a b r1 r2 r3 r5 show ?thesis
    by (simp only: c(1) simp_thms)
qed

text \<open>
  C8. For an id that is present, \<^verbatim>\<open>restock_product\<close> succeeds for every amount (every
  non-negative one in particular): the record keeps its place and its other fields, and
  its stock is the old stock plus the amount. For an id that is absent it fails with
  \<open>NotFound\<close> and changes nothing.
\<close>

theorem restock_product_adds:
  "(dict_get (products iv) pid = Some p \<longrightarrow>
      restock_product pid amount iv =
        (None, iv\<lparr>products := dict_set (products iv) pid
                  (p\<lparr>quantity_in_stock := quantity_in_stock p + amount\<rparr>)\<rparr>) \<and>
      map_option quantity_in_stock (dict_get (products (snd (restock_product pid amount iv))) pid)
        = Some (quantity_in_stock p + amount)) \<and>
   (\<not> dict_contains (products iv) pid \<longrightarrow>
      restock_product pid amount iv = (Some NotFound, iv))"
  by (simp add: restock_product_def restock_def dict_get_set dict_contains_get)

theorem restock_product_adds_witness:
  "dict_get (products shop) ''E001'' = Some elec \<and>
   fst (restock_product ''E001'' 5 shop) = None \<and>
   map_option quantity_in_stock (dict_get (products (snd (restock_product ''E001'' 5 shop))) ''E001'')
     = Some 15 \<and>
   \<not> dict_contains (products shop) ''X999'' \<and>
   restock_product ''X999'' 5 shop = (Some NotFound, shop)"
proof -
  have a: "dict_get (products shop) ''E001'' = Some elec"
    by (simp add: dict_get_def shop_def)
  have b: "\<not> dict_contains (products shop) ''X999''"
    by (simp add: dict_contains_def shop_def)
  have c: "quantity_in_stock elec + 5 = 15"
    by (simp add: elec_def)
  from a restock_product_adds [of shop "''E001''" elec 5]
  have r0: "restock_product ''E001'' 5 shop =
      (None, shop\<lparr>products := dict_set (products shop) ''E001''
                (elec\<lparr>quantity_in_stock := quantity_in_stock elec + 5\<rparr>)\<rparr>)"
    and r2: "map_option quantity_in_stock
        (dict_get (products (snd (restock_product ''E001'' 5 shop))) ''E001'')
      = Some (quantity_in_stock elec + 5)"
    by blast+
  from r0 have r1: "fst (restock_product ''E001'' 5 shop) = None"
    by simp
  from b restock_product_adds [of shop "''X999''" elec 5]
  have r3: "restock_product ''X999'' 5 shop = (Some NotFound, shop)"
    by blast
  from a b r1 r2 r3 show ?thesis
    by (simp only: c simp_thms)
qed

text \<open>
  C10. \<^verbatim>\<open>sell\<close> has no check that the quantity is positive. For a record that is
  present, has a stock that is not negative and is not an expired grocery, selling 0
  succeeds and changes nothing, and selling \<open>- n\<close> for a positive \<open>n\<close> succeeds and
  raises the stock by \<open>n\<close>.
\<close>

theorem sell_product_non_positive:
  assumes "dict_get (products iv) pid = Some p"
    and "0 \<le> quantity_in_stock p"
    and "\<not> expired_grocery now p"
  shows "sell_product now pid 0 iv = (None, iv) \<and>
         (0 < n \<longrightarrow>
            sell_product now pid (- n) iv =
              (None, iv\<lparr>products := dict_set (products iv) pid
                        (p\<lparr>quantity_in_stock := quantity_in_stock p + n\<rparr>)\<rparr>) \<and>
            map_option quantity_in_stock
              (dict_get (products (snd (sell_product now pid (- n) iv))) pid)
              = Some (quantity_in_stock p + n))"
  using assms
  by (simp add: sell_product_def sell_not_expired sell_plain_def dict_set_same dict_get_set)

theorem sell_product_non_positive_witness:
  "dict_get (products shop) ''C001'' = Some cloth \<and> 0 \<le> quantity_in_stock cloth \<and>
   \<not> expired_grocery clock cloth \<and>
   sell_product clock ''C001'' 0 shop = (None, shop) \<and>
   fst (sell_product clock ''C001'' (- 3) shop) = None \<and>
   map_option quantity_in_stock
     (dict_get (products (snd (sell_product clock ''C001'' (- 3) shop))) ''C001'') = Some 18"
proof -
  have a: "dict_get (products shop) ''C001'' = Some cloth"
    by (simp add: dict_get_def shop_def)
  have b: "0 \<le> quantity_in_stock cloth" "quantity_in_stock cloth + 3 = 18"
    by (simp_all add: cloth_def)
  have c: "\<not> expired_grocery clock cloth"
    by (simp add: expired_grocery_def cloth_def)
  have z: "(0::int) < 3"
    by simp
  from z sell_product_non_positive [OF a b(1) c, of 3]
  have r1: "sell_product clock ''C001'' 0 shop = (None, shop)"
    and r0: "sell_product clock ''C001'' (- 3) shop =
      (None, shop\<lparr>products := dict_set (products shop) ''C001''
                (cloth\<lparr>quantity_in_stock := quantity_in_stock cloth + 3\<rparr>)\<rparr>)"
    and r3: "map_option quantity_in_stock
        (dict_get (products (snd (sell_product clock ''C001'' (- 3) shop))) ''C001'')
      = Some (quantity_in_stock cloth + 3)"
    by blast+
  from r0 have r2: "fst (sell_product clock ''C001'' (- 3) shop) = None"
    by simp
  from a b(1) c r1 r2 r3 show ?thesis
    by (simp only: b(2) simp_thms)
qed

text \<open>
  C5, as the code has it. For a record that is present and is not an expired grocery:
  when the quantity is at most the stock, \<^verbatim>\<open>sell_product\<close> succeeds, the record keeps
  its place and its other fields, and its stock is the old stock minus the quantity; when
  the quantity exceeds the stock it fails with \<open>InsufficientStock\<close> and changes nothing.
\<close>

theorem sell_product_stock:
  assumes "dict_get (products iv) pid = Some p"
    and "\<not> expired_grocery now p"
  shows "(q \<le> quantity_in_stock p \<longrightarrow>
            sell_product now pid q iv =
              (None, iv\<lparr>products := dict_set (products iv) pid
                        (p\<lparr>quantity_in_stock := quantity_in_stock p - q\<rparr>)\<rparr>) \<and>
            map_option quantity_in_stock
              (dict_get (products (snd (sell_product now pid q iv))) pid)
              = Some (quantity_in_stock p - q)) \<and>
         (q > quantity_in_stock p \<longrightarrow>
            sell_product now pid q iv = (Some InsufficientStock, iv))"
  using assms
  by (simp add: sell_product_def sell_not_expired sell_plain_def dict_set_same dict_get_set)

theorem sell_product_stock_witness:
  "dict_get (products shop) ''C001'' = Some cloth \<and> \<not> expired_grocery clock cloth \<and>
   fst (sell_product clock ''C001'' 5 shop) = None \<and>
   map_option quantity_in_stock
     (dict_get (products (snd (sell_product clock ''C001'' 5 shop))) ''C001'') = Some 10 \<and>
   sell_product clock ''C001'' 16 shop = (Some InsufficientStock, shop)"
proof -
  have a: "dict_get (products shop) ''C001'' = Some cloth"
    by (simp add: dict_get_def shop_def)
  have b: "5 \<le> quantity_in_stock cloth" "16 > quantity_in_stock cloth"
    "quantity_in_stock cloth - 5 = 10"
    by (simp_all add: cloth_def)
  have c: "\<not> expired_grocery clock cloth"
    by (simp add: expired_grocery_def cloth_def)
  from b(1) sell_product_stock [OF a c, of 5]
  have r0: "sell_product clock ''C001'' 5 shop =
      (None, shop\<lparr>products := dict_set (products shop) ''C001''
                (cloth\<lparr>quantity_in_stock := quantity_in_stock cloth - 5\<rparr>)\<rparr>)"
    and r2: "map_option quantity_in_stock
        (dict_get (products (snd (sell_product clock ''C001'' 5 shop))) ''C001'')
      = Some (quantity_in_stock cloth - 5)"
    by blast+
  from r0 have r1: "fst (sell_product clock ''C001'' 5 shop) = None"
    by simp
  from b(2) sell_product_stock [OF a c, of 16]
  have r3: "sell_product clock ''C001'' 16 shop = (Some InsufficientStock, shop)"
    by blast
  from a c r1 r2 r3 show ?thesis
    by (simp only: b(3) simp_thms)
qed

text \<open>
  The claim without the condition on expiry fails: the old milk has a stock of 5, and
  selling 6 of it fails with \<open>ExpiredProduct\<close>, not with \<open>InsufficientStock\<close>.
\<close>

theorem sell_product_stock_counterexample:
  "dict_get (products shop) ''G002'' = Some expired \<and> 6 > quantity_in_stock expired \<and>
   sell_product clock ''G002'' 6 shop = (Some ExpiredProduct, shop) \<and>
   sell_product clock ''G002'' 6 shop \<noteq> (Some InsufficientStock, shop)"
  by (simp add: sell_product_def sell_def sell_grocery_def is_expired_def dt_less_def
      dt_key_def dict_get_def fixture_defs)

subsection \<open>Rounding to a double\<close>

lemma pow2_nonpos: "k \<le> 0 \<Longrightarrow> pow2 k = 1 / 2 ^ nat (- k)"
  by (cases "k = 0") (simp_all add: pow2_def)

lemma pow2_pos: "0 < pow2 k"
  by (simp add: pow2_def)

lemma bitlen_ge_one: 
  assumes "1 \<le> n" 
  shows "1 \<le> bitlen n"
proof (rule ccontr)
  assume "\<not> 1 \<le> bitlen n"
  then have "nat (bitlen n) = 0" by simp
  moreover from assms bitlen_bounds [of n] have "n < 2 ^ nat (bitlen n)" by simp
  ultimately show False using assms by simp
qed

lemma floor_log2_bounds:
  assumes "0 < a"
  shows "pow2 (floor_log2 a) \<le> a \<and> a < pow2 (floor_log2 a + 1)"
proof (cases "1 \<le> a")
  case True
  define n where "n = \<lfloor>a\<rfloor>"
  from True have n: "1 \<le> n"
    by (simp add: n_def le_floor_iff)
  from bitlen_ge_one [OF n] have k: "0 \<le> bitlen n - 1" by simp
  from n bitlen_bounds [of n]
  have lo: "2 ^ nat (bitlen n - 1) \<le> n" and hi: "n < 2 ^ nat (bitlen n)"
    by simp_all
  have fl: "floor_log2 a = bitlen n - 1"
    using True by (simp add: floor_log2_def n_def)
  from lo have "(of_int (2 ^ nat (bitlen n - 1)) :: rat) \<le> of_int n"
    by (simp only: of_int_le_iff)
  also have "\<dots> \<le> a"
    by (simp add: n_def)
  finally have a1: "pow2 (bitlen n - 1) \<le> a"
    using k by (simp add: pow2_def)
  from hi have "n + 1 \<le> 2 ^ nat (bitlen n)" by simp
  then have "(of_int (n + 1) :: rat) \<le> of_int (2 ^ nat (bitlen n))"
    by (simp only: of_int_le_iff)
  moreover have "a < of_int (n + 1)"
    using floor_correct [of a] by (simp only: n_def)
  ultimately have "a < of_int (2 ^ nat (bitlen n))"
    by (rule less_le_trans [rotated])
  then have a2: "a < pow2 (bitlen n - 1 + 1)"
    using k by (simp add: pow2_def)
  from a1 a2 show ?thesis
    by (simp only: fl)
next
  case False
  define b where "b = 1 / a"
  define m where "m = \<lceil>b\<rceil> - 1"
  from assms False have b: "1 < b"
    by (simp add: b_def)
  then have m: "1 \<le> m"
    by (simp add: m_def less_ceiling_iff)
  let ?j = "bitlen m"
  from bitlen_ge_one [OF m] have j: "1 \<le> ?j" .
  from m bitlen_bounds [of m]
  have lo: "2 ^ nat (?j - 1) \<le> m" and hi: "m < 2 ^ nat ?j"
    by simp_all
  have fl: "floor_log2 a = - ?j"
    using False by (simp add: floor_log2_def m_def b_def)
  have mb: "of_int m < b" "b \<le> of_int m + 1"
    by (simp_all add: m_def) linarith+
  from hi have "m + 1 \<le> 2 ^ nat ?j" by simp
  then have "(of_int (m + 1) :: rat) \<le> of_int (2 ^ nat ?j)"
    by (simp only: of_int_le_iff)
  with mb(2) have "b \<le> 2 ^ nat ?j"
    by simp
  with assms have "1 / 2 ^ nat ?j \<le> a"
    by (simp add: b_def field_simps)
  then have a1: "pow2 (- ?j) \<le> a"
    using j by (simp add: pow2_nonpos)
  from lo have "(of_int (2 ^ nat (?j - 1)) :: rat) \<le> of_int m"
    by (simp only: of_int_le_iff)
  then have "(2::rat) ^ nat (?j - 1) \<le> of_int m"
    by (simp only: of_int_power of_int_numeral)
  from this mb(1) have "2 ^ nat (?j - 1) < b"
    by (rule le_less_trans)
  with assms have "a < 1 / 2 ^ nat (?j - 1)"
    by (simp add: b_def field_simps)
  then have a2: "a < pow2 (- ?j + 1)"
    using j by (simp add: pow2_nonpos)
  from a1 a2 show ?thesis
    by (simp only: fl)
qed

text \<open>Some values of the rounding, as a check of the model.\<close>

lemma round_double_examples:
  "round_double (1 / 10) = Finite tenth"
  "round_double (1 / 3) = Finite (6004799503160661 / 18014398509481984)"
  "round_double (2 ^ 53 + 1) = Finite (2 ^ 53)"
  "round_double (2 ^ 53 + 3) = Finite (2 ^ 53 + 4)"
  "round_double (- 5 / 2) = Finite (- 5 / 2)"
  by code_simp+

subsection \<open>Valuation\<close>














subsection \<open>Sweeping expired groceries\<close>

lemma lex_less_date:
  "lex_less [y, m, d, 0, 0, 0, 0] [y', m', d', h, mi, s, us] \<longleftrightarrow>
     lex_less [y, m, d] [y', m', d'] \<or>
     ([y, m, d] = [y', m', d'] \<and> \<not> (h = 0 \<and> mi = 0 \<and> s = 0 \<and> us = 0))"
  by auto

lemma is_expired_by_date:
  "midnight e \<Longrightarrow> is_expired now e = expired_by_date now e"
  using lex_less_date [of "year e" "month e" "day e" "year now" "month now" "day now"
      "hour now" "minute now" "second now" "microsecond now"]
  by (simp only: is_expired_def expired_by_date_def dt_less_def date_less_def dt_key_def
      date_key_def midnight_def)

lemma expired_grocery_swept:
  "valid_product p \<Longrightarrow> expired_grocery now p = swept now p"
  by (cases "details p")
    (simp_all add: valid_product_def expired_grocery_def swept_def valid_date_def is_expired_by_date)

text \<open>
  C4, as the code has it. \<^verbatim>\<open>is_expired\<close> compares the clock, a date with a time of
  day, to the expiry date at midnight. The sweep removes exactly the groceries whose expiry
  time is before the clock, that is, whose expiry date is before the current date, or is
  the current date when the clock is past midnight. Every other record stays, unchanged
  and in its place.
\<close>

theorem remove_expired_products_exact:
  assumes "distinct (map fst (products iv))"
    and "list_all (\<lambda>kv. valid_product (snd kv)) (products iv)"
  shows "products (remove_expired_products now iv) =
           filter (\<lambda>kv. \<not> expired_grocery now (snd kv)) (products iv) \<and>
         products (remove_expired_products now iv) =
           filter (\<lambda>kv. \<not> swept now (snd kv)) (products iv)"
proof -
  have a: "products (remove_expired_products now iv) =
      filter (\<lambda>kv. \<not> expired_grocery now (snd kv)) (products iv)"
    using assms(1) by (rule products_remove_expired)
  have "filter (\<lambda>kv. \<not> expired_grocery now (snd kv)) (products iv) =
      filter (\<lambda>kv. \<not> swept now (snd kv)) (products iv)"
    using assms(2) by (intro filter_cong refl) (simp add: list_all_iff expired_grocery_swept)
  with a show ?thesis by simp
qed

theorem remove_expired_products_exact_witness:
  "distinct (map fst (products shop)) \<and>
   list_all (\<lambda>kv. valid_product (snd kv)) (products shop) \<and>
   products (remove_expired_products clock shop) =
     [(''E001'', elec), (''G001'', groc), (''C001'', cloth)]"
proof -
  have a: "distinct (map fst (products shop))"
    by (simp add: shop_def)
  have b: "list_all (\<lambda>kv. valid_product (snd kv)) (products shop)"
    by (simp add: valid_product_def valid_date_def midnight_def days_in_month_def fixture_defs)
  have c: "filter (\<lambda>kv. \<not> swept clock (snd kv)) (products shop) =
      [(''E001'', elec), (''G001'', groc), (''C001'', cloth)]"
    by (simp add: swept_def expired_by_date_def date_less_def date_key_def midnight_def
        fixture_defs)
  from remove_expired_products_exact [OF a b, of clock]
  have "products (remove_expired_products clock shop) =
      filter (\<lambda>kv. \<not> swept clock (snd kv)) (products shop)"
    by blast
  with c have "products (remove_expired_products clock shop) =
      [(''E001'', elec), (''G001'', groc), (''C001'', cloth)]"
    by (simp only:)
  with a b show ?thesis by simp
qed

text \<open>
  The claim in terms of dates alone fails on the day of expiry: at half past twelve on
  2024-06-15 the yoghurt that expires on 2024-06-15 is swept, though its expiry date is
  not before the current date.
\<close>

theorem remove_expired_products_counterexample:
  "\<not> date_less (expiry_date (details yoghurt)) clock \<and>
   dict_get (products \<lparr>products = [(''G003'', yoghurt)]\<rparr>) ''G003'' = Some yoghurt \<and>
   dict_get (products (remove_expired_products clock \<lparr>products = [(''G003'', yoghurt)]\<rparr>))
     ''G003'' = None"
  by (simp add: remove_expired_products_def to_remove_def expired_grocery_def is_expired_def
      dt_less_def dt_key_def date_less_def date_key_def dict_del_def dict_get_def fixture_defs)

subsection \<open>Dates\<close>

lemma digit_of_digit_char: "digit_of (digit_char n) = Some (n mod 10)"
proof -
  have "n mod 10 < 10" by simp
  then have "(48 + n mod 10) mod 256 = 48 + n mod 10"
    by simp
  then show ?thesis
    by (simp add: digit_of_def digit_char_def)
qed












lemma digit_of_le: "digit_of c = Some a \<Longrightarrow> a \<le> 9"
  by (auto simp: digit_of_def Let_def split: if_splits)

lemma parse_year_le: "parse_year s = Some y \<Longrightarrow> y \<le> 9999"
  by (auto simp: parse_year_def
      split: list.splits option.splits dest!: digit_of_le)

lemma parse_month_range: "parse_month s = Some m \<Longrightarrow> 1 \<le> m \<and> m \<le> 12"
  by (auto simp: parse_month_def
      split: list.splits option.splits if_splits dest!: digit_of_le)

lemma parse_day_range: "parse_day s = Some d \<Longrightarrow> 1 \<le> d"
  by (auto simp: parse_day_def split: list.splits option.splits if_splits)

lemma strptime_valid:
  assumes "strptime s = Some t"
  shows "valid_date t"
  using assms
  by (auto simp: strptime_def Let_def valid_date_def midnight_def
      split: if_splits option.splits
      dest: parse_year_le parse_month_range parse_day_range)

text \<open>Some values of the two library functions, as a check of the model.\<close>

lemma strptime_examples:
  "strptime ''2024-06-15'' = Some (at_midnight 2024 6 15)"
  "strptime ''2024-6-5'' = Some (at_midnight 2024 6 5)"
  "strptime ''2024-02-29'' = Some (at_midnight 2024 2 29)"
  "strptime ''2023-02-29'' = None"
  "strptime ''2024-13-01'' = None"
  "strptime ''0000-01-01'' = None"
  "strptime ''24-12-01'' = None"
  "strptime ''2024-12-011'' = None"
  "strptime ''yesterday'' = None"
  by code_simp+


subsection \<open>Loading\<close>

lemma load_items_prefix:
  "map decode pre = map Inr ps \<Longrightarrow>
   load_items (pre @ rest) d = load_items rest (foldl (\<lambda>d p. dict_set d (product_id p) p) d ps)"
proof (induction pre arbitrary: ps d)
  case Nil
  then show ?case by simp
next
  case (Cons it pre)
  then obtain p ps' where ps: "ps = p # ps'" and p: "decode it = Inr p"
    and rest: "map decode pre = map Inr ps'"
    by (cases ps) auto
  from Cons.IH [OF rest] show ?case
    by (simp add: ps p)
qed

text \<open>
  C1, as the code has it. \<^verbatim>\<open>load_from_file\<close> clears the dictionary before it parses.
  When a record of the document fails to parse, the load fails with the error of the first
  such record, and the inventory is left with exactly the records decoded before it, the
  prior content being lost. Only when the file cannot be opened or decoded does a failing
  load leave the inventory as it was.
\<close>

theorem load_from_file_failure:
  "(fs filename = Some (JsonArray (pre @ bad # post)) \<and> map decode pre = map Inr ps \<and>
      decode bad = Inl e \<longrightarrow>
      load_from_file filename fs iv = (Some e, iv\<lparr>products := dict_of_products ps\<rparr>)) \<and>
   (fs filename = None \<or> fs filename = Some NotJson \<longrightarrow>
      load_from_file filename fs iv = (Some IOFailure, iv))"
proof (intro conjI impI)
  assume a: "fs filename = Some (JsonArray (pre @ bad # post)) \<and> map decode pre = map Inr ps \<and>
      decode bad = Inl e"
  then have "load_items (pre @ bad # post) [] = (Some e, dict_of_products ps)"
    by (simp add: load_items_prefix [of pre ps] dict_of_products_def)
  with a show "load_from_file filename fs iv = (Some e, iv\<lparr>products := dict_of_products ps\<rparr>)"
    by (simp add: load_from_file_def)
next
  assume "fs filename = None \<or> fs filename = Some NotJson"
  then show "load_from_file filename fs iv = (Some IOFailure, iv)"
    by (auto simp: load_from_file_def)
qed

lemma decode_shirt_item: "decode shirt_item = Inr cloth"
  by (simp add: decode_def new_Clothing_def has_base_def base_product_def document_defs cloth_def)

lemma decode_gadget_item: "decode gadget_item = Inl UnknownCategory"
  by (simp add: decode_def document_defs)

theorem load_from_file_failure_witness:
  "disk ''data.json'' = Some (JsonArray ([shirt_item] @ gadget_item # [])) \<and>
   map decode [shirt_item] = map Inr [cloth] \<and> decode gadget_item = Inl UnknownCategory \<and>
   load_from_file ''data.json'' disk shop =
     (Some UnknownCategory, shop\<lparr>products := [(''C001'', cloth)]\<rparr>) \<and>
   disk ''notes.txt'' = Some NotJson \<and>
   load_from_file ''notes.txt'' disk shop = (Some IOFailure, shop)"
proof -
  have a: "disk ''data.json'' = Some (JsonArray ([shirt_item] @ gadget_item # []))"
    by (simp add: disk_def)
  have b: "map decode [shirt_item] = map Inr [cloth]"
    by (simp add: decode_shirt_item)
  have c: "disk ''notes.txt'' = Some NotJson"
    by (simp add: disk_def)
  have d: "dict_of_products [cloth] = [(''C001'', cloth)]"
    by (simp add: dict_of_products_def cloth_def)
  from a b decode_gadget_item
    load_from_file_failure [of disk "''data.json''" "[shirt_item]" gadget_item "[]" "[cloth]"
      UnknownCategory shop]
  have r1: "load_from_file ''data.json'' disk shop =
      (Some UnknownCategory, shop\<lparr>products := dict_of_products [cloth]\<rparr>)"
    by blast
  from c load_from_file_failure [of disk "''notes.txt''" "[]" gadget_item "[]" "[]" UnknownCategory shop]
  have r2: "load_from_file ''notes.txt'' disk shop = (Some IOFailure, shop)"
    by blast
  from a b c decode_gadget_item r1 r2 show ?thesis
    by (simp only: d simp_thms)
qed

text \<open>
  The load is not atomic: with the shirt followed by an object of unknown tag in the file,
  loading into the shop fails and leaves the shirt alone in the inventory.
\<close>

theorem load_from_file_counterexample:
  "load_from_file ''data.json'' disk shop =
     (Some UnknownCategory, \<lparr>products = [(''C001'', cloth)]\<rparr>) \<and>
   products shop = [(''E001'', elec), (''G001'', groc), (''C001'', cloth), (''G002'', expired)] \<and>
   snd (load_from_file ''data.json'' disk shop) \<noteq> shop"
  by (simp add: load_from_file_def disk_def decode_shirt_item decode_gadget_item shop_def
      cloth_def)

subsection \<open>The stock invariant\<close>

lemma sell_keeps_stock_ok:
  "0 \<le> quantity_in_stock p \<Longrightarrow> 0 \<le> quantity_in_stock (snd (sell now q p))"
  by (cases "details p") (simp_all add: sell_def sell_plain_def sell_grocery_def)

lemma restock_keeps_stock_ok:
  "0 \<le> quantity_in_stock p \<Longrightarrow> 0 \<le> amount \<Longrightarrow>
   0 \<le> quantity_in_stock (snd (restock amount p))"
  by (simp add: restock_def)

lemma dict_get_list_all: "dict_get d k = Some v \<Longrightarrow> list_all P d \<Longrightarrow> P (k, v)"
  by (auto simp: dict_get_def list_all_iff dest: map_of_SomeD)

lemma list_all_dict_del: "list_all P d \<Longrightarrow> list_all P (dict_del d k)"
  by (simp add: dict_del_def list_all_iff)

lemma list_all_foldl_dict_del: "list_all P d \<Longrightarrow> list_all P (foldl dict_del d ks)"
  by (simp add: foldl_dict_del list_all_iff)

lemma decode_stock:
  "decode it = Inr p \<Longrightarrow> k_quantity_in_stock it = Some (quantity_in_stock p)"
  by (auto simp: decode_def new_Electronics_def new_Grocery_def new_Clothing_def has_base_def
      base_product_def split: option.splits if_splits)

lemma decode_stock_ok: "decode it = Inr p \<Longrightarrow> item_stock_ok it \<Longrightarrow> 0 \<le> quantity_in_stock p"
  by (simp add: item_stock_ok_def decode_stock)

lemma load_items_stock_ok:
  "list_all item_stock_ok data \<Longrightarrow>
   list_all (\<lambda>kv. 0 \<le> quantity_in_stock (snd kv)) d \<Longrightarrow>
   list_all (\<lambda>kv. 0 \<le> quantity_in_stock (snd kv)) (snd (load_items data d))"
proof (induction data arbitrary: d)
  case Nil
  then show ?case by simp
next
  case (Cons it data)
  show ?case
  proof (cases "decode it")
    case (Inl e)
    with Cons.prems show ?thesis by simp
  next
    case (Inr p)
    with Cons.prems have "0 \<le> quantity_in_stock p"
      by (simp add: decode_stock_ok)
    with Cons.prems
    have "list_all (\<lambda>kv. 0 \<le> quantity_in_stock (snd kv)) (dict_set d (product_id p) p)"
      by (simp add: list_all_dict_set)
    with Cons.IH Cons.prems Inr show ?thesis by simp
  qed
qed

text \<open>
  C6, as the code has it. Nothing checks the stock of a record that enters the inventory,
  so the invariant that no stock is negative is kept under a condition on what comes in:
  \<^verbatim>\<open>add_product\<close> keeps it when the stock of the new record is not negative, and
  \<^verbatim>\<open>load_from_file\<close> establishes it when no record of the document gives a negative
  stock. Removing, selling (any quantity, a positive one in particular), restocking an
  amount that is not negative and sweeping keep it.
\<close>

theorem stock_ok_preserved:
  assumes "stock_ok iv"
  shows "(0 \<le> quantity_in_stock p \<longrightarrow> stock_ok (snd (add_product p iv))) \<and>
         stock_ok (snd (remove_product pid iv)) \<and>
         stock_ok (snd (sell_product now pid q iv)) \<and>
         (0 \<le> amount \<longrightarrow> stock_ok (snd (restock_product pid amount iv))) \<and>
         stock_ok (remove_expired_products now iv) \<and>
         (file_stock_ok fs filename \<longrightarrow> stock_ok (snd (load_from_file filename fs iv)))"
proof (intro conjI impI)
  assume "0 \<le> quantity_in_stock p"
  with assms show "stock_ok (snd (add_product p iv))"
    by (simp add: add_product_def stock_ok_def list_all_dict_set)
next
  from assms show "stock_ok (snd (remove_product pid iv))"
    by (simp add: remove_product_def stock_ok_def list_all_dict_del)
next
  show "stock_ok (snd (sell_product now pid q iv))"
  proof (cases "dict_get (products iv) pid")
    case None
    with assms show ?thesis by (simp add: sell_product_def)
  next
    case (Some r)
    with assms have "0 \<le> quantity_in_stock r"
      using dict_get_list_all [of "products iv" pid r "\<lambda>kv. 0 \<le> quantity_in_stock (snd kv)"]
      by (simp add: stock_ok_def)
    then have "0 \<le> quantity_in_stock (snd (sell now q r))"
      by (rule sell_keeps_stock_ok)
    with assms Some show ?thesis
      by (simp add: sell_product_def stock_ok_def list_all_dict_set case_prod_beta)
  qed
next
  assume amount: "0 \<le> amount"
  show "stock_ok (snd (restock_product pid amount iv))"
  proof (cases "dict_get (products iv) pid")
    case None
    with assms show ?thesis by (simp add: restock_product_def)
  next
    case (Some r)
    with assms have "0 \<le> quantity_in_stock r"
      using dict_get_list_all [of "products iv" pid r "\<lambda>kv. 0 \<le> quantity_in_stock (snd kv)"]
      by (simp add: stock_ok_def)
    with amount have "0 \<le> quantity_in_stock (snd (restock amount r))"
      by (simp add: restock_keeps_stock_ok)
    with assms Some show ?thesis
      by (simp add: restock_product_def stock_ok_def list_all_dict_set case_prod_beta)
  qed
next
  from assms show "stock_ok (remove_expired_products now iv)"
    by (simp add: remove_expired_products_def stock_ok_def list_all_foldl_dict_del)
next
  assume fok: "file_stock_ok fs filename"
  show "stock_ok (snd (load_from_file filename fs iv))"
  proof (cases "fs filename")
    case None
    with assms show ?thesis by (simp add: load_from_file_def)
  next
    case (Some content)
    show ?thesis
    proof (cases content)
      case NotJson
      with Some assms show ?thesis by (simp add: load_from_file_def)
    next
      case (JsonArray data)
      with Some fok have "list_all item_stock_ok data"
        by (simp add: file_stock_ok_def)
      then have "list_all (\<lambda>kv. 0 \<le> quantity_in_stock (snd kv)) (snd (load_items data []))"
        by (rule load_items_stock_ok) simp
      with Some JsonArray show ?thesis
        by (simp add: load_from_file_def stock_ok_def case_prod_beta)
    qed
  qed
qed


theorem stock_ok_preserved_witness:
  "stock_ok shop \<and> 0 \<le> quantity_in_stock yoghurt \<and> (0::int) \<le> 5 \<and>
   file_stock_ok disk ''data.json'' \<and>
   stock_ok (snd (add_product yoghurt shop)) \<and>
   stock_ok (snd (remove_product ''C001'' shop)) \<and>
   stock_ok (snd (sell_product clock ''C001'' 5 shop)) \<and>
   stock_ok (snd (restock_product ''C001'' 5 shop)) \<and>
   stock_ok (remove_expired_products clock shop) \<and>
   stock_ok (snd (load_from_file ''data.json'' disk shop))"
proof -
  have a: "stock_ok shop"
    by (simp add: stock_ok_def fixture_defs)
  have b: "0 \<le> quantity_in_stock yoghurt" "(0::int) \<le> 5"
    by (simp_all add: yoghurt_def)
  have c: "file_stock_ok disk ''data.json''"
    by (simp add: file_stock_ok_def item_stock_ok_def document_defs)
  from b c stock_ok_preserved [OF a, of yoghurt "''C001''" clock 5 5 disk "''data.json''"]
  have "stock_ok (snd (add_product yoghurt shop)) \<and>
      stock_ok (snd (remove_product ''C001'' shop)) \<and>
      stock_ok (snd (sell_product clock ''C001'' 5 shop)) \<and>
      stock_ok (snd (restock_product ''C001'' 5 shop)) \<and>
      stock_ok (remove_expired_products clock shop) \<and>
      stock_ok (snd (load_from_file ''data.json'' disk shop))"
    by blast
  with a b c show ?thesis by blast
qed

lemma decode_owed_item: "decode owed_item = Inr owed"
  by (simp add: decode_def new_Electronics_def has_base_def base_product_def document_defs)

text \<open>
  Neither \<^verbatim>\<open>add_product\<close> nor \<^verbatim>\<open>load_from_file\<close> keeps the invariant by itself:
  a radio with a stock of \<open>- 5\<close> is added to the empty inventory without an error, and is
  loaded from a file without an error.
\<close>

theorem stock_ok_counterexample:
  "stock_ok new_inventory \<and>
   add_product owed new_inventory = (None, \<lparr>products = [(''E009'', owed)]\<rparr>) \<and>
   \<not> stock_ok (snd (add_product owed new_inventory)) \<and>
   load_from_file ''owed.json'' disk new_inventory = (None, \<lparr>products = [(''E009'', owed)]\<rparr>) \<and>
   \<not> stock_ok (snd (load_from_file ''owed.json'' disk new_inventory))"
  by (simp add: stock_ok_def new_inventory_def add_product_def dict_contains_def
      load_from_file_def disk_def decode_owed_item owed_def)

subsection \<open>Saving and loading\<close>



lemma sell_fields:
  "product_id (snd (sell now q p)) = product_id p \<and> details (snd (sell now q p)) = details p"
  by (cases "details p") (simp_all add: sell_def sell_plain_def sell_grocery_def)

lemma decode_valid: "decode it = Inr p \<Longrightarrow> valid_product p"
  by (auto simp: decode_def new_Electronics_def new_Grocery_def new_Clothing_def
      base_product_def valid_product_def
      split: option.splits if_splits dest: strptime_valid)

lemma wf_dict_set:
  "wf_inventory iv \<Longrightarrow> valid_product p \<Longrightarrow>
   wf_inventory (iv\<lparr>products := dict_set (products iv) (product_id p) p\<rparr>)"
  by (simp add: wf_inventory_def distinct_dict_set list_all_dict_set)

lemma wf_filter:
  "wf_inventory iv \<Longrightarrow> wf_inventory (iv\<lparr>products := filter P (products iv)\<rparr>)"
  by (simp add: wf_inventory_def distinct_map_filter list_all_iff)

lemma wf_dict_get:
  "wf_inventory iv \<Longrightarrow> dict_get (products iv) pid = Some p \<Longrightarrow>
   product_id p = pid \<and> valid_product p"
  using dict_get_list_all [of "products iv" pid p
      "\<lambda>kv. product_id (snd kv) = fst kv \<and> valid_product (snd kv)"]
  by (simp add: wf_inventory_def)

lemma load_items_wf:
  "wf_inventory \<lparr>products = d\<rparr> \<Longrightarrow> wf_inventory \<lparr>products = snd (load_items data d)\<rparr>"
proof (induction data arbitrary: d)
  case Nil
  then show ?case by simp
next
  case (Cons it data)
  show ?case
  proof (cases "decode it")
    case (Inl e)
    with Cons.prems show ?thesis by simp
  next
    case (Inr p)
    with Cons.prems have "wf_inventory \<lparr>products = dict_set d (product_id p) p\<rparr>"
      using wf_dict_set [of "\<lparr>products = d\<rparr>" p] by (simp add: decode_valid)
    with Cons.IH Inr show ?thesis by simp
  qed
qed

text \<open>
  The inventories that the program builds are well formed: the empty one is, and every
  operation keeps it so, given that a product passed to \<^verbatim>\<open>add_product\<close> comes from a
  constructor.
\<close>

lemma wf_inventory_preserved:
  "wf_inventory new_inventory"
  "wf_inventory iv \<Longrightarrow> valid_product p \<Longrightarrow> wf_inventory (snd (add_product p iv))"
  "wf_inventory iv \<Longrightarrow> wf_inventory (snd (remove_product pid iv))"
  "wf_inventory iv \<Longrightarrow> wf_inventory (snd (sell_product now pid q iv))"
  "wf_inventory iv \<Longrightarrow> wf_inventory (snd (restock_product pid amount iv))"
  "wf_inventory iv \<Longrightarrow> wf_inventory (remove_expired_products now iv)"
  "wf_inventory iv \<Longrightarrow> wf_inventory (snd (load_from_file filename fs iv))"
proof -
  show "wf_inventory new_inventory"
    by (simp add: wf_inventory_def new_inventory_def)
next
  assume "wf_inventory iv" "valid_product p"
  then show "wf_inventory (snd (add_product p iv))"
    by (simp add: add_product_def wf_dict_set)
next
  assume "wf_inventory iv"
  then show "wf_inventory (snd (remove_product pid iv))"
    by (simp add: remove_product_def dict_del_def wf_filter)
next
  assume wf: "wf_inventory iv"
  show "wf_inventory (snd (sell_product now pid q iv))"
  proof (cases "dict_get (products iv) pid")
    case None
    with wf show ?thesis by (simp add: sell_product_def)
  next
    case (Some r)
    from wf_dict_get [OF wf Some] sell_fields [of now q r]
    have "product_id (snd (sell now q r)) = pid" "valid_product (snd (sell now q r))"
      by (simp_all add: valid_product_def)
    with wf_dict_set [OF wf this(2)] Some show ?thesis
      by (simp add: sell_product_def case_prod_beta)
  qed
next
  assume wf: "wf_inventory iv"
  show "wf_inventory (snd (restock_product pid amount iv))"
  proof (cases "dict_get (products iv) pid")
    case None
    with wf show ?thesis by (simp add: restock_product_def)
  next
    case (Some r)
    from wf_dict_get [OF wf Some]
    have "product_id (snd (restock amount r)) = pid" "valid_product (snd (restock amount r))"
      by (simp_all add: valid_product_def restock_def)
    with wf_dict_set [OF wf this(2)] Some show ?thesis
      by (simp add: restock_product_def case_prod_beta)
  qed
next
  assume "wf_inventory iv"
  then show "wf_inventory (remove_expired_products now iv)"
    by (simp add: remove_expired_products_def foldl_dict_del wf_filter)
next
  assume wf: "wf_inventory iv"
  have "wf_inventory \<lparr>products = snd (load_items data [])\<rparr>" for data
    by (rule load_items_wf) (simp add: wf_inventory_def)
  with wf show "wf_inventory (snd (load_from_file filename fs iv))"
    by (cases iv)
      (simp add: load_from_file_def case_prod_beta split: option.splits file_content.splits)
qed

lemma digit_char_is_digit: "digit_of (digit_char n) \<noteq> None"
  by (simp add: digit_of_digit_char)










end
